theory Spec2Isabelle
  imports Complex_Main
begin

section \<open>Python values shared by the embedded modules\<close>

text \<open>
  Every \<^verbatim>\<open>raise\<close> of the embedded functions is a value of \<open>error\<close>; a function that can
  raise returns \<open>error + 'a\<close> with \<open>Inl\<close> for the exception. \<open>IndexError\<close> is what
  Python raises by itself on an out-of-range list or array index.
\<close>

datatype error =
    NotImplementedError string
  | RuntimeError string
  | ValueError string
  | IndexError

definition bind_err :: "error + 'a \<Rightarrow> ('a \<Rightarrow> error + 'b) \<Rightarrow> error + 'b" where
  "bind_err r f = (case r of Inl e \<Rightarrow> Inl e | Inr x \<Rightarrow> f x)"

text \<open>Python list indexing \<^verbatim>\<open>xs[i]\<close>: a negative index counts from the end.\<close>

definition py_index :: "'a list \<Rightarrow> int \<Rightarrow> error + 'a" where
  "py_index xs i =
     (if 0 \<le> i \<and> i < int (length xs) then Inr (xs ! nat i)
      else if i < 0 \<and> - int (length xs) \<le> i then Inr (xs ! nat (int (length xs) + i))
      else Inl IndexError)"

text \<open>
  A Python \<^verbatim>\<open>slice(start, stop)\<close>; \<open>None\<close> is an open end. The three sub-node selectors
  of the penalty helpers are \<^verbatim>\<open>slice(0, 1)\<close> (first sub-step), \<^verbatim>\<open>slice(-1, None)\<close> (last
  sub-step) and \<^verbatim>\<open>slice(0, None)\<close> (all sub-steps).
\<close>

datatype slice = Slice "int option" "int option"

definition slice_bound :: "int \<Rightarrow> nat \<Rightarrow> nat" where
  "slice_bound i n = (if i < 0 then nat (max (i + int n) 0) else min (nat i) n)"

fun py_slice :: "slice \<Rightarrow> 'a list \<Rightarrow> 'a list" where
  "py_slice (Slice start stop) xs =
     (let n = length xs;
          a = (case start of None \<Rightarrow> 0 | Some i \<Rightarrow> slice_bound i n);
          b = (case stop of None \<Rightarrow> n | Some j \<Rightarrow> slice_bound j n)
      in take (b - a) (drop a xs))"

text \<open>\<^verbatim>\<open>range(n)\<close> and \<^verbatim>\<open>enumerate(xs)\<close> with Python's integer indices.\<close>

definition py_range :: "int \<Rightarrow> int list" where
  "py_range n = map int [0..<nat n]"

definition py_enumerate :: "'a list \<Rightarrow> (int \<times> 'a) list" where
  "py_enumerate xs = zip (map int [0..<length xs]) xs"

section \<open>\<^verbatim>\<open>limits/penalty_helpers.py\<close>\<close>

subsection \<open>Matrices handed to the helpers\<close>

text \<open>
  The helpers dispatch on the representation of a matrix with \<^verbatim>\<open>isinstance\<close>: the symbolic
  engine's \<^verbatim>\<open>SX\<close>, \<^verbatim>\<open>MX\<close> and \<^verbatim>\<open>DM\<close> (always two-dimensional, stored column by column), a
  \<^verbatim>\<open>numpy.ndarray\<close> (any shape), or anything else. A matrix is its kind, its shape and its
  entries listed in column-major (Fortran) order. In this representation both
  \<^verbatim>\<open>m.reshape((-1, 1))\<close> of the symbolic engine and \<^verbatim>\<open>m.reshape((-1, 1), order="F")\<close> of
  numpy keep the list of entries and only replace the shape by (number of entries, 1).
  Any other Python object is \<open>Other\<close> with the name of its type and the names of the classes
  that type inherits from, which is what \<^verbatim>\<open>isinstance\<close> looks at (\<^verbatim>\<open>True\<close> is
  \<open>Other ''bool'' [''int'', ''object'']\<close>). The four matrix classes do not inherit from one
  another.
\<close>

datatype cx_kind = SX | MX | DM

datatype 'a matrix =
    CX cx_kind nat nat "'a list"
  | NDArray "nat list" "'a list"
  | Other string "string list"

fun numel :: "'a matrix \<Rightarrow> nat" where
  "numel (CX k r c d) = r * c"
| "numel (NDArray sh d) = prod_list sh"
| "numel (Other t bases) = 0"

fun type_name :: "'a matrix \<Rightarrow> string" where
  "type_name (CX SX r c d) = ''SX''"
| "type_name (CX MX r c d) = ''MX''"
| "type_name (CX DM r c d) = ''DM''"
| "type_name (NDArray sh d) = ''ndarray''"
| "type_name (Other t bases) = t"

text \<open>\<^verbatim>\<open>isinstance(m, c)\<close> for the class named \<open>c\<close>.\<close>

fun instance_of :: "'a matrix \<Rightarrow> string \<Rightarrow> bool" where
  "instance_of (Other t bases) c = (c = t \<or> c \<in> set bases)"
| "instance_of m c = (c = type_name m)"

fun is_column :: "'a matrix \<Rightarrow> bool" where
  "is_column (CX k r c d) = (c = 1)"
| "is_column (NDArray sh d) = (case sh of [n, c] \<Rightarrow> c = 1 | _ \<Rightarrow> False)"
| "is_column (Other t bases) = False"

subsection \<open>The penalty record\<close>

text \<open>
  Modelled from the spec: the enum \<^verbatim>\<open>QuadratureRule\<close> of \<^verbatim>\<open>misc/enums.py\<close>, whose declaration
  is not part of the sources at hand. The spec lists the integration rules none, trapezoidal
  and approximate-trapezoidal.
\<close>

datatype QuadratureRule = NO_RULE | TRAPEZOIDAL | APPROXIMATE_TRAPEZOIDAL

text \<open>\<^verbatim>\<open>penalty.phase\<close> is a phase index or a list of them.\<close>

datatype phase_ref = PhaseInt int | PhaseList "int list"

text \<open>
  The attributes of a penalty that the helpers read. \<open>target\<close> is \<open>None\<close> or the list of
  target arrays (\<^verbatim>\<open>penalty.target[0]\<close>, \<^verbatim>\<open>penalty.target[1]\<close>), which are numpy arrays:
  a shape and the entries in column-major order.
\<close>

type_synonym 'a ndarray = "nat list \<times> 'a list"

record 'a penalty =
  phase :: phase_ref
  node_idx :: "int list"
  integration_rule :: QuadratureRule
  integrate :: bool
  derivative :: bool
  explicit_derivative :: bool
  transition :: bool
  multinode_penalty :: bool
  nodes_phase :: "int list"
  multinode_idx :: "int list"
  target :: "'a ndarray list option"
  weight :: real

subsection \<open>\<^verbatim>\<open>_reshape_to_vector\<close>\<close>

definition reshape_to_vector :: "'a matrix \<Rightarrow> error + 'a matrix" where
  "reshape_to_vector m =
     (case m of
        CX k r c d \<Rightarrow> Inr (CX k (r * c) 1 d)
      | NDArray sh d \<Rightarrow> Inr (NDArray [prod_list sh, 1] d)
      | Other t bases \<Rightarrow> Inl (RuntimeError ''Invalid type to reshape''))"

subsection \<open>\<^verbatim>\<open>_get_multinode_indices\<close>\<close>

definition get_multinode_indices ::
  "'a penalty \<Rightarrow> error + (int list \<times> int list \<times> slice list)" where
  "get_multinode_indices penalty =
     (if transition penalty then
        if length (nodes_phase penalty) \<noteq> 2 \<or> length (multinode_idx penalty) \<noteq> 2
        then Inl (RuntimeError ''Transition must have exactly 2 nodes and 2 phases'')
        else Inr ([nodes_phase penalty ! 1, nodes_phase penalty ! 0],
                  [multinode_idx penalty ! 1, multinode_idx penalty ! 0],
                  [Slice (Some (- 1)) None, Slice (Some 0) (Some 1)])
      else Inr (nodes_phase penalty,
                multinode_idx penalty,
                replicate (length (multinode_idx penalty)) (Slice (Some 0) (Some 1))))"

text \<open>\<^verbatim>\<open>zip(phases, nodes, subnodes)\<close>, the couplings the helpers iterate over.\<close>

definition zip3 :: "'a list \<times> 'b list \<times> 'c list \<Rightarrow> ('a \<times> 'b \<times> 'c) list" where
  "zip3 t = (case t of (xs, ys, zs) \<Rightarrow> zip xs (zip ys zs))"

subsection \<open>\<^verbatim>\<open>_vertcat\<close>\<close>

text \<open>
  The concatenations of the libraries, \<^verbatim>\<open>casadi.vertcat\<close> and \<^verbatim>\<open>numpy.vstack\<close>, are
  parameters of the helpers that call them. The argument of \<^verbatim>\<open>_vertcat\<close> is a list in every
  call of the module, so its first check (not a list) has no branch here; \<^verbatim>\<open>v[0]\<close> on the
  empty list raises \<open>IndexError\<close>.
\<close>

definition vertcat ::
  "('a matrix list \<Rightarrow> 'a matrix) \<Rightarrow> ('a matrix list \<Rightarrow> 'a matrix) \<Rightarrow>
   'a matrix list \<Rightarrow> error + 'a matrix" where
  "vertcat casadi_vertcat np_vstack v =
     (case v of
        [] \<Rightarrow> Inl IndexError
      | v0 # _ \<Rightarrow>
          if list_ex (\<lambda>tp. \<not> instance_of tp (type_name v0)) v
          then Inl (ValueError ''All elements of the list must be of the same type'')
          else (case v0 of
                  CX k r c d \<Rightarrow> Inr (casadi_vertcat v)
                | NDArray sh d \<Rightarrow> Inr (np_vstack v)
                | Other t bases \<Rightarrow> Inl (RuntimeError ''Invalid type to vertcat'')))"

subsection \<open>\<^verbatim>\<open>PenaltyHelpers.states\<close>\<close>

text \<open>A \<^verbatim>\<open>for\<close> loop that appends the result of each step, stopping at the first exception.\<close>

fun for_append :: "('b \<Rightarrow> error + 'c) \<Rightarrow> 'b list \<Rightarrow> error + 'c list" where
  "for_append f [] = Inr []"
| "for_append f (x # xs) =
     bind_err (f x) (\<lambda>y. bind_err (for_append f xs) (\<lambda>ys. Inr (y # ys)))"

text \<open>\<^verbatim>\<open>isinstance(penalty.phase, list) and len(penalty.phase) > 1\<close>\<close>

fun multiple_phases :: "phase_ref \<Rightarrow> bool" where
  "multiple_phases (PhaseInt i) = False"
| "multiple_phases (PhaseList ps) = (length ps > 1)"

text \<open>\<^verbatim>\<open>index = 0 if index is None else penalty.node_idx[index]\<close>\<close>

definition resolve_index :: "'a penalty \<Rightarrow> int option \<Rightarrow> error + int" where
  "resolve_index penalty index =
     (case index of None \<Rightarrow> Inr 0 | Some i \<Rightarrow> py_index (node_idx penalty) i)"

definition states ::
  "('a matrix list \<Rightarrow> 'a matrix) \<Rightarrow> ('a matrix list \<Rightarrow> 'a matrix) \<Rightarrow>
   'a penalty \<Rightarrow> int option \<Rightarrow> (phase_ref \<Rightarrow> int \<Rightarrow> slice \<Rightarrow> 'a matrix) \<Rightarrow> bool \<Rightarrow>
   error + 'a matrix" where
  "states casadi_vertcat np_vstack penalty index get_state_decision is_constructing_penalty =
     (if multiple_phases (phase penalty)
      then Inl (NotImplementedError ''penalty cost over multiple phases is not implemented yet'')
      else bind_err (resolve_index penalty index) (\<lambda>index.
        if integration_rule penalty = APPROXIMATE_TRAPEZOIDAL \<or> integrate penalty then
          bind_err (reshape_to_vector
                      (get_state_decision (phase penalty) index (Slice (Some 0) None))) (\<lambda>x.
            if is_constructing_penalty then
              bind_err (reshape_to_vector
                          (get_state_decision (phase penalty) index (Slice (Some (- 1)) None)))
                (\<lambda>x_end. Inr (casadi_vertcat [x, x_end]))
            else
              bind_err (reshape_to_vector
                          (get_state_decision (phase penalty) (index + 1) (Slice (Some 0) (Some 1))))
                (\<lambda>x_next. Inr (casadi_vertcat [x, x_next])))
        else if derivative penalty \<or> explicit_derivative penalty then
          bind_err (reshape_to_vector
                      (get_state_decision (phase penalty) index (Slice (Some 0) (Some 1)))) (\<lambda>x0.
            bind_err
              (if is_constructing_penalty
               then reshape_to_vector
                      (get_state_decision (phase penalty) index (Slice (Some (- 1)) None))
               else reshape_to_vector
                      (get_state_decision (phase penalty) (index + 1) (Slice (Some 0) (Some 1))))
              (\<lambda>x1. Inr (if derivative penalty then casadi_vertcat [x1, x0]
                          else casadi_vertcat [x0, x1])))
        else if transition penalty \<or> multinode_penalty penalty then
          bind_err (get_multinode_indices penalty) (\<lambda>indices.
            bind_err
              (for_append
                 (\<lambda>(phase, node, sub). reshape_to_vector (get_state_decision (PhaseInt phase) node sub))
                 (zip3 indices))
              (vertcat casadi_vertcat np_vstack))
        else reshape_to_vector
               (get_state_decision (phase penalty) index (Slice (Some 0) (Some 1)))))"

subsection \<open>\<^verbatim>\<open>PenaltyHelpers.target\<close>\<close>

text \<open>
  \<^verbatim>\<open>a[..., k]\<close> on a numpy array: the index runs over the last axis, which is the slowest
  one in column-major order, so the result is the \<open>k\<close>-th block of entries with the last axis
  dropped from the shape. The position \<open>j\<close> on an axis of length \<open>n\<close> is resolved like a list
  index into \<open>[0, ..., n - 1]\<close>: a negative \<open>k\<close> counts from the end and an index outside
  the axis raises \<open>IndexError\<close>, as does a zero-dimensional array, which has no axis to index.
\<close>

fun index_last_axis :: "'a ndarray \<Rightarrow> int \<Rightarrow> error + 'a matrix" where
  "index_last_axis (sh, d) k =
     (case py_index [0..<(if sh = [] then 0 else last sh)] k of
        Inl e \<Rightarrow> Inl e
      | Inr j \<Rightarrow>
          Inr (NDArray (butlast sh)
                 (take (prod_list (butlast sh)) (drop (j * prod_list (butlast sh)) d))))"

text \<open>
  \<^verbatim>\<open>numpy.vstack\<close> and the transposition \<^verbatim>\<open>.T\<close> are parameters. \<^verbatim>\<open>np.array([])\<close> is the
  one-dimensional array of shape (0,).
\<close>

definition target ::
  "('a matrix list \<Rightarrow> 'a matrix) \<Rightarrow> ('a matrix \<Rightarrow> 'a matrix) \<Rightarrow>
   'a penalty \<Rightarrow> int \<Rightarrow> error + 'a matrix" where
  "target np_vstack np_T penalty penalty_node_idx =
     (case penalty.target penalty of
        None \<Rightarrow> Inr (NDArray [0] [])
      | Some tgt \<Rightarrow>
          if integration_rule penalty = APPROXIMATE_TRAPEZOIDAL
             \<or> integration_rule penalty = TRAPEZOIDAL
          then bind_err (bind_err (py_index tgt 0) (\<lambda>t. index_last_axis t penalty_node_idx))
                 (\<lambda>target0.
               bind_err (bind_err (py_index tgt 1) (\<lambda>t. index_last_axis t penalty_node_idx))
                 (\<lambda>target1. Inr (np_T (np_vstack [target0, target1]))))
          else bind_err (py_index tgt 0) (\<lambda>t. index_last_axis t penalty_node_idx))"

text \<open>
  A concrete concatenation for evaluating the helpers on examples: it stacks the entries
  of column vectors and keeps the representation of the first one, as both library
  functions do on column vectors of one kind.
\<close>

fun entries :: "'a matrix \<Rightarrow> 'a list" where
  "entries (CX k r c d) = d"
| "entries (NDArray sh d) = d"
| "entries (Other t bases) = []"

definition stack_columns :: "'a matrix list \<Rightarrow> 'a matrix" where
  "stack_columns v =
     (case v of
        [] \<Rightarrow> NDArray [0] []
      | CX k r c d # _ \<Rightarrow> CX k (sum_list (map numel v)) 1 (concat (map entries v))
      | NDArray sh d # _ \<Rightarrow> NDArray [sum_list (map numel v), 1] (concat (map entries v))
      | Other t bases # _ \<Rightarrow> Other t bases)"

text \<open>
  A shooting grid for examples: node \<open>n\<close> of every phase holds the three sub-steps
  \<open>10 n\<close>, \<open>10 n + 1\<close>, \<open>10 n + 2\<close> of a one-dimensional state, as a symbolic-engine
  numeric matrix with one column per sub-step.
\<close>

definition example_grid :: "phase_ref \<Rightarrow> int \<Rightarrow> slice \<Rightarrow> int matrix" where
  "example_grid ph n sub =
     (let xs = py_slice sub [10 * n, 10 * n + 1, 10 * n + 2] in CX DM 1 (length xs) xs)"

definition example_penalty :: "int penalty" where
  "example_penalty =
     \<lparr> phase = PhaseInt 0, node_idx = [0, 1, 2], integration_rule = NO_RULE,
       integrate = False, derivative = False, explicit_derivative = False,
       transition = False, multinode_penalty = False,
       nodes_phase = [0, 1], multinode_idx = [3, 0], target = None, weight = 1 \<rparr>"

section \<open>\<^verbatim>\<open>optimization/stochastic_optimal_control_program.py\<close>\<close>

subsection \<open>The data the assemblers read and emit\<close>

text \<open>
  Of a phase (\<^verbatim>\<open>nlp\<close>) the assemblers read the shooting count \<^verbatim>\<open>nlp.ns\<close> and the dynamics
  function \<^verbatim>\<open>nlp.dynamics_type.dynamic_function\<close>.
\<close>

record 'd nlp =
  ns :: int
  dynamic_function :: 'd

text \<open>
  Modelled from the spec: the problem types of \<^verbatim>\<open>optimization/problem_type.py\<close>, whose
  declaration is not part of the sources at hand: the variants EXPLICIT and IMPLICIT, each
  carrying the motor and the sensory noise magnitude (\<^verbatim>\<open>wM_magnitude\<close>, \<^verbatim>\<open>wS_magnitude\<close>).
  \<open>OtherProblemType\<close> is any value that is an instance of neither class.
\<close>

datatype 'w OcpType = SOCP_EXPLICIT 'w 'w | SOCP_IMPLICIT 'w 'w | OtherProblemType

text \<open>
  The members of \<^verbatim>\<open>MultinodeConstraintFcn\<close>, \<^verbatim>\<open>ConstraintFcn\<close> and \<^verbatim>\<open>Node\<close> that the
  assemblers name. \<^verbatim>\<open>COVARIANCE_MATRIX_CONINUITY_IMPLICIT\<close> is a member of both function
  enums; the multi-node one carries the prefix \<open>MULTINODE\<close> here, and \<^verbatim>\<open>Node.ALL\<close>
  is \<open>Node_ALL\<close>.
\<close>

datatype MultinodeConstraintFcn =
    M_EQUALS_INVERSE_OF_DG_DZ
  | MULTINODE_COVARIANCE_MATRIX_CONINUITY_IMPLICIT

datatype ConstraintFcn =
    COVARIANCE_MATRIX_CONINUITY_IMPLICIT
  | A_EQUALS_DF_DX
  | C_EQUALS_DF_DW

datatype Node = Node_ALL

text \<open>
  One \<^verbatim>\<open>add\<close> to a \<^verbatim>\<open>MultinodeConstraintList\<close>: the function, \<^verbatim>\<open>nodes_phase\<close>, \<^verbatim>\<open>nodes\<close>,
  \<^verbatim>\<open>dynamics\<close> (absent in the covariance constraint) and the two noise magnitudes. One
  \<^verbatim>\<open>add\<close> to a \<^verbatim>\<open>ConstraintList\<close>: the function, \<^verbatim>\<open>node\<close>, \<^verbatim>\<open>phase\<close> and the magnitudes.
\<close>

datatype ('d, 'w) multinode_constraint =
  MultinodeConstraint MultinodeConstraintFcn "int \<times> int" "int \<times> int" "'d option" 'w 'w

datatype 'w constraint =
  Constraint ConstraintFcn Node int 'w 'w

text \<open>
  The lists whose \<^verbatim>\<open>add_or_replace_to_penalty_pool\<close> the program calls: the two the
  assemblers build and the multi-node lists declared by the user, which the assemblers never
  look into.
\<close>

datatype ('d, 'w, 'u) penalty_list =
    MultinodeConstraintList "('d, 'w) multinode_constraint list"
  | ConstraintList "'w constraint list"
  | UserList 'u

text \<open>
  The program object: the two attributes the constructor sets itself, the problem type, the
  phases, and whatever else the base class keeps (\<open>base\<close>).
\<close>

record ('d, 'w, 'x) socp =
  n_threads :: int
  assume_phase_dynamics :: bool
  problem_type :: "'w OcpType"
  nlp :: "'d nlp list"
  base :: 'x

subsection \<open>\<^verbatim>\<open>_prepare_stochastic_dynamics_explicit\<close>\<close>

text \<open>The list \<^verbatim>\<open>penalty_m_dg_dz_list\<close> at the end of the two nested loops.\<close>

definition penalty_m_dg_dz_list ::
  "'d nlp list \<Rightarrow> 'w \<Rightarrow> 'w \<Rightarrow> ('d, 'w) multinode_constraint list" where
  "penalty_m_dg_dz_list nlps wM_magnitude wS_magnitude =
     concat (map (\<lambda>(i_phase, nlp).
         map (\<lambda>i_node.
               MultinodeConstraint M_EQUALS_INVERSE_OF_DG_DZ (i_phase, i_phase)
                 (i_node, i_node + 1) (Some (dynamic_function nlp)) wM_magnitude wS_magnitude)
           (py_range (ns nlp - 1))
         @ (if i_phase > 0
            then [MultinodeConstraint M_EQUALS_INVERSE_OF_DG_DZ (i_phase - 1, i_phase)
                    (- 1, 0) (Some (dynamic_function nlp)) wM_magnitude wS_magnitude]
            else []))
       (py_enumerate nlps))"

definition prepare_stochastic_dynamics_explicit ::
  "(('d, 'w, 'u) penalty_list \<Rightarrow> ('d, 'w, 'x) socp \<Rightarrow> error + ('d, 'w, 'x) socp) \<Rightarrow>
   ('d, 'w, 'x) socp \<Rightarrow> 'w \<Rightarrow> 'w \<Rightarrow> error + ('d, 'w, 'x) socp" where
  "prepare_stochastic_dynamics_explicit add_or_replace_to_penalty_pool self
       wM_magnitude wS_magnitude =
     add_or_replace_to_penalty_pool
       (MultinodeConstraintList (penalty_m_dg_dz_list (nlp self) wM_magnitude wS_magnitude)) self"

subsection \<open>\<^verbatim>\<open>_prepare_stochastic_dynamics_implicit\<close>\<close>

text \<open>
  The lists \<^verbatim>\<open>multi_node_penalties\<close> and \<^verbatim>\<open>single_node_penalties\<close> after the four loops
  (M, P, A, C): the loop on P appends to both lists.
\<close>

definition multi_node_penalties ::
  "'d nlp list \<Rightarrow> 'w \<Rightarrow> 'w \<Rightarrow> ('d, 'w) multinode_constraint list" where
  "multi_node_penalties nlps wM_magnitude wS_magnitude =
     concat (map (\<lambda>(i_phase, nlp).
         map (\<lambda>i_node.
               MultinodeConstraint M_EQUALS_INVERSE_OF_DG_DZ (i_phase, i_phase)
                 (i_node, i_node + 1) (Some (dynamic_function nlp)) wM_magnitude wS_magnitude)
           (py_range (ns nlp - 1))
         @ (if i_phase > 0
            then [MultinodeConstraint M_EQUALS_INVERSE_OF_DG_DZ (i_phase - 1, i_phase)
                    (- 1, 0) (Some (dynamic_function nlp)) wM_magnitude wS_magnitude]
            else []))
       (py_enumerate nlps))
     @ concat (map (\<lambda>(i_phase, nlp).
         if i_phase > 0
         then [MultinodeConstraint MULTINODE_COVARIANCE_MATRIX_CONINUITY_IMPLICIT
                 (i_phase - 1, i_phase) (- 1, 0) None wM_magnitude wS_magnitude]
         else [])
       (py_enumerate nlps))"

definition single_node_penalties :: "'d nlp list \<Rightarrow> 'w \<Rightarrow> 'w \<Rightarrow> 'w constraint list" where
  "single_node_penalties nlps wM_magnitude wS_magnitude =
     map (\<lambda>(i_phase, nlp).
           Constraint COVARIANCE_MATRIX_CONINUITY_IMPLICIT Node_ALL i_phase wM_magnitude wS_magnitude)
       (py_enumerate nlps)
     @ map (\<lambda>(i_phase, nlp). Constraint A_EQUALS_DF_DX Node_ALL i_phase wM_magnitude wS_magnitude)
       (py_enumerate nlps)
     @ map (\<lambda>(i_phase, nlp). Constraint C_EQUALS_DF_DW Node_ALL i_phase wM_magnitude wS_magnitude)
       (py_enumerate nlps)"

definition prepare_stochastic_dynamics_implicit ::
  "(('d, 'w, 'u) penalty_list \<Rightarrow> ('d, 'w, 'x) socp \<Rightarrow> error + ('d, 'w, 'x) socp) \<Rightarrow>
   ('d, 'w, 'x) socp \<Rightarrow> 'w \<Rightarrow> 'w \<Rightarrow> error + ('d, 'w, 'x) socp" where
  "prepare_stochastic_dynamics_implicit add_or_replace_to_penalty_pool self
       wM_magnitude wS_magnitude =
     bind_err
       (add_or_replace_to_penalty_pool
          (MultinodeConstraintList (multi_node_penalties (nlp self) wM_magnitude wS_magnitude))
          self)
       (add_or_replace_to_penalty_pool
          (ConstraintList (single_node_penalties (nlp self) wM_magnitude wS_magnitude)))"

text \<open>
  What the claims count in an emitted list: the M-consistency constraints inside a phase
  (both nodes in the same phase), those across a phase boundary, and the constraints of one
  function.
\<close>

fun is_intra_phase_M :: "('d, 'w) multinode_constraint \<Rightarrow> bool" where
  "is_intra_phase_M (MultinodeConstraint f (p0, p1) nodes dyn wM wS) =
     (f = M_EQUALS_INVERSE_OF_DG_DZ \<and> p0 = p1)"

fun is_boundary :: "MultinodeConstraintFcn \<Rightarrow> ('d, 'w) multinode_constraint \<Rightarrow> bool" where
  "is_boundary g (MultinodeConstraint f (p0, p1) nodes dyn wM wS) = (f = g \<and> p0 + 1 = p1)"

fun constraint_fcn :: "'w constraint \<Rightarrow> ConstraintFcn" where
  "constraint_fcn (Constraint f node ph wM wS) = f"

text \<open>
  Modelled from the spec: the expansion of a single-node constraint over the nodes of its
  phase, which \<^verbatim>\<open>ConstraintList.add_or_replace_to_penalty_pool\<close> and the node selector
  \<^verbatim>\<open>Node.ALL\<close> of \<^verbatim>\<open>misc/enums.py\<close> perform; neither is available. The spec applies such a
  constraint "at every node" of its phase, and it counts the nodes of a phase as the loops on
  M do, which pair the nodes \<open>i\<close> and \<open>i + 1\<close> for \<open>i\<close> in \<^verbatim>\<open>range(nlp.ns - 1)\<close>: a phase has
  the nodes \<open>0, ..., ns - 1\<close>. A constraint stands for one (function, phase, node) triple per
  node of its phase; \<open>applied_constraints\<close> lists the triples of a whole constraint list in
  order.
\<close>

fun phase_nodes :: "'d nlp \<Rightarrow> Node \<Rightarrow> int list" where
  "phase_nodes p Node_ALL = py_range (ns p)"

fun applied_nodes ::
  "'d nlp list \<Rightarrow> 'w constraint \<Rightarrow> error + (ConstraintFcn \<times> int \<times> int) list" where
  "applied_nodes nlps (Constraint f node ph wM wS) =
     bind_err (py_index nlps ph) (\<lambda>p. Inr (map (\<lambda>n. (f, ph, n)) (phase_nodes p node)))"

definition applied_constraints ::
  "'d nlp list \<Rightarrow> 'w constraint list \<Rightarrow> error + (ConstraintFcn \<times> int \<times> int) list" where
  "applied_constraints nlps cs =
     bind_err (for_append (applied_nodes nlps) cs) (\<lambda>xs. Inr (concat xs))"

subsection \<open>\<^verbatim>\<open>_declare_multi_node_penalties\<close>\<close>

definition declare_multi_node_penalties ::
  "(('d, 'w, 'u) penalty_list \<Rightarrow> ('d, 'w, 'x) socp \<Rightarrow> error + ('d, 'w, 'x) socp) \<Rightarrow>
   ('d, 'w, 'x) socp \<Rightarrow> 'u \<Rightarrow> 'u \<Rightarrow> error + ('d, 'w, 'x) socp" where
  "declare_multi_node_penalties add_or_replace_to_penalty_pool self
       multinode_constraints multinode_objectives =
     bind_err (add_or_replace_to_penalty_pool (UserList multinode_constraints) self) (\<lambda>self.
     bind_err (add_or_replace_to_penalty_pool (UserList multinode_objectives) self) (\<lambda>self.
       case problem_type self of
         SOCP_EXPLICIT wM_magnitude wS_magnitude \<Rightarrow>
           prepare_stochastic_dynamics_explicit add_or_replace_to_penalty_pool self
             wM_magnitude wS_magnitude
       | SOCP_IMPLICIT wM_magnitude wS_magnitude \<Rightarrow>
           prepare_stochastic_dynamics_implicit add_or_replace_to_penalty_pool self
             wM_magnitude wS_magnitude
       | OtherProblemType \<Rightarrow> Inr self))"

subsection \<open>\<^verbatim>\<open>StochasticOptimalControlProgram.__init__\<close>\<close>

text \<open>
  The values a caller can give for \<^verbatim>\<open>n_threads\<close>, \<^verbatim>\<open>assume_phase_dynamics\<close> or an
  undeclared keyword, with Python's \<^verbatim>\<open>!= 1\<close> and truth value (\<^verbatim>\<open>True == 1\<close> and
  \<^verbatim>\<open>1.0 == 1\<close> hold in Python).
\<close>

datatype pyval = PyInt int | PyBool bool | PyFloat real | PyNone | PyStr string

fun differs_from_1 :: "pyval \<Rightarrow> bool" where
  "differs_from_1 (PyInt i) = (i \<noteq> 1)"
| "differs_from_1 (PyBool b) = (\<not> b)"
| "differs_from_1 (PyFloat x) = (x \<noteq> 1)"
| "differs_from_1 PyNone = True"
| "differs_from_1 (PyStr s) = True"

fun truthy :: "pyval \<Rightarrow> bool" where
  "truthy (PyInt i) = (i \<noteq> 0)"
| "truthy (PyBool b) = b"
| "truthy (PyFloat x) = (x \<noteq> 0)"
| "truthy PyNone = False"
| "truthy (PyStr s) = (s \<noteq> [])"

text \<open>
  A call of the constructor by keyword. Python binds every keyword that is the name of a
  declared parameter to that parameter; only the remaining ones reach \<^verbatim>\<open>**kwargs\<close>.
  \<open>keyword_args\<close> holds the scalar keyword arguments of the call, among them \<^verbatim>\<open>n_threads\<close> and
  \<^verbatim>\<open>assume_phase_dynamics\<close> when given; the problem type and the other arguments, which
  the constructor only passes on, are \<open>problem_type_arg\<close> and \<open>other_args\<close>.
\<close>

record ('w, 'o) call =
  keyword_args :: "string \<rightharpoonup> pyval"
  problem_type_arg :: "'w OcpType"
  other_args :: 'o

definition declared_parameters :: "string list" where
  "declared_parameters =
     [''bio_model'', ''dynamics'', ''n_shooting'', ''phase_time'', ''x_bounds'', ''u_bounds'',
      ''s_bounds'', ''x_init'', ''u_init'', ''s_init'', ''objective_functions'', ''constraints'',
      ''parameters'', ''parameter_bounds'', ''parameter_init'', ''parameter_objectives'',
      ''parameter_constraints'', ''external_forces'', ''ode_solver'', ''control_type'',
      ''variable_mappings'', ''time_phase_mapping'', ''node_mappings'', ''plot_mappings'',
      ''phase_transitions'', ''multinode_constraints'', ''multinode_objectives'', ''x_scaling'',
      ''xdot_scaling'', ''u_scaling'', ''state_continuity_weight'', ''n_threads'', ''use_sx'',
      ''skip_continuity'', ''assume_phase_dynamics'', ''integrated_value_functions'',
      ''problem_type'']"

definition kwargs_of :: "('w, 'o) call \<Rightarrow> (string \<rightharpoonup> pyval)" where
  "kwargs_of c = (\<lambda>k. if k \<in> set declared_parameters then None else keyword_args c k)"

definition n_threads_arg :: "('w, 'o) call \<Rightarrow> pyval" where
  "n_threads_arg c = (case keyword_args c ''n_threads'' of None \<Rightarrow> PyInt 1 | Some v \<Rightarrow> v)"

definition assume_phase_dynamics_arg :: "('w, 'o) call \<Rightarrow> pyval" where
  "assume_phase_dynamics_arg c =
     (case keyword_args c ''assume_phase_dynamics'' of None \<Rightarrow> PyBool False | Some v \<Rightarrow> v)"

text \<open>
  The first statements of the constructor: the two checks on \<^verbatim>\<open>kwargs\<close> and the two
  assignments.
\<close>

definition init_attributes ::
  "('d, 'w, 'x) socp \<Rightarrow> (string \<rightharpoonup> pyval) \<Rightarrow> error + ('d, 'w, 'x) socp" where
  "init_attributes self kwargs =
     (if (case kwargs ''n_thread'' of None \<Rightarrow> False | Some v \<Rightarrow> differs_from_1 v)
      then Inl (ValueError
        ''Multi-threading is not possible yet while solving a stochactic ocp.n_thread is set to 1 by default.'')
      else if (case kwargs ''assume_phase_dynamics'' of None \<Rightarrow> False | Some v \<Rightarrow> truthy v)
      then Inl (ValueError
        ''The dynamics cannot be assumed to be the same between phases with a stochactic ocp.assume_phase_dynamics is set to False by default.'')
      else Inr (self\<lparr>n_threads := 1, assume_phase_dynamics := False\<rparr>))"

text \<open>
  The whole constructor. The methods it inherits from \<^verbatim>\<open>OptimalControlProgram\<close> are
  parameters: \<open>build\<close> stands for the calls from \<^verbatim>\<open>check_bioptim_version\<close> to
  \<^verbatim>\<open>check_arguments_and_build_nlp\<close>, which receive the arguments of the call and return the
  multi-node lists and what \<^verbatim>\<open>finalize_penalties\<close> needs; \<open>finalize_penalties\<close> is the last
  call.
\<close>

definition init ::
  "(('w, 'o) call \<Rightarrow> ('d, 'w, 'x) socp \<Rightarrow> error + (('d, 'w, 'x) socp \<times> 'u \<times> 'u \<times> 'f)) \<Rightarrow>
   (('d, 'w, 'u) penalty_list \<Rightarrow> ('d, 'w, 'x) socp \<Rightarrow> error + ('d, 'w, 'x) socp) \<Rightarrow>
   ('f \<Rightarrow> ('d, 'w, 'x) socp \<Rightarrow> error + ('d, 'w, 'x) socp) \<Rightarrow>
   ('d, 'w, 'x) socp \<Rightarrow> ('w, 'o) call \<Rightarrow> error + ('d, 'w, 'x) socp" where
  "init build add_or_replace_to_penalty_pool finalize_penalties self c =
     bind_err (init_attributes self (kwargs_of c)) (\<lambda>self.
     bind_err (build c self) (\<lambda>(self, multinode_constraints, multinode_objectives, fin).
     bind_err (declare_multi_node_penalties add_or_replace_to_penalty_pool
                 (self\<lparr>problem_type := problem_type_arg c\<rparr>)
                 multinode_constraints multinode_objectives)
       (finalize_penalties fin)))"

text \<open>An object and two calls for examples; the inherited steps of the examples do nothing.\<close>

definition example_self :: "(unit, unit, unit) socp" where
  "example_self =
     \<lparr> n_threads = 8, assume_phase_dynamics = True, problem_type = OtherProblemType,
       nlp = [], base = () \<rparr>"

definition example_call :: "(string \<rightharpoonup> pyval) \<Rightarrow> (unit, unit) call" where
  "example_call kw =
     \<lparr> keyword_args = kw, problem_type_arg = SOCP_EXPLICIT () (), other_args = () \<rparr>"

definition example_build ::
  "(unit, unit) call \<Rightarrow> (unit, unit, unit) socp \<Rightarrow>
   error + ((unit, unit, unit) socp \<times> unit \<times> unit \<times> unit)" where
  "example_build c s = Inr (s, (), (), ())"

definition example_add ::
  "(unit, unit, unit) penalty_list \<Rightarrow> (unit, unit, unit) socp \<Rightarrow> error + (unit, unit, unit) socp"
  where
  "example_add l s = Inr s"

definition example_finalize ::
  "unit \<Rightarrow> (unit, unit, unit) socp \<Rightarrow> error + (unit, unit, unit) socp" where
  "example_finalize fin s = Inr s"

section \<open>\<^verbatim>\<open>examples/discrete_mechanics_and_optimal_control/holonomic_constraints.py\<close>\<close>

text \<open>
  Vectors are lists of reals and a matrix is the list of its rows. Of the multibody model the
  builder calls \<^verbatim>\<open>marker(q, index)\<close>, the position of a marker in the global frame, and
  \<^verbatim>\<open>marker_index(name)\<close>; \<^verbatim>\<open>nb_q\<close> and \<^verbatim>\<open>nb_qdot\<close> only size the symbols. The automatic
  differentiation of the symbolic engine, \<^verbatim>\<open>jacobian\<close>, is a parameter: it maps a vector
  function to the function giving its jacobian matrix. A compiled \<^verbatim>\<open>Function\<close> is the
  function it computes; the sizes of its arguments are not checked here.
\<close>

record biorbd_model =
  marker :: "real list \<Rightarrow> nat \<Rightarrow> real list"
  marker_index :: "string \<Rightarrow> nat"
  nb_q :: nat
  nb_qdot :: nat

definition vec_sub :: "real list \<Rightarrow> real list \<Rightarrow> real list" where
  "vec_sub u v = map2 (-) u v"

definition vec_add :: "real list \<Rightarrow> real list \<Rightarrow> real list" where
  "vec_add u v = map2 (+) u v"

definition mat_vec :: "real list list \<Rightarrow> real list \<Rightarrow> real list" where
  "mat_vec A v = map (\<lambda>row. sum_list (map2 (*) row v)) A"

definition superimpose_markers ::
  "((real list \<Rightarrow> real list) \<Rightarrow> real list \<Rightarrow> real list list) \<Rightarrow>
   biorbd_model \<Rightarrow> string \<Rightarrow> string option \<Rightarrow> slice \<Rightarrow>
   (real list \<Rightarrow> real list) \<times> (real list \<Rightarrow> real list list)
     \<times> (real list \<Rightarrow> real list \<Rightarrow> real list \<Rightarrow> real list)" where
  "superimpose_markers jacobian biorbd_model marker_1 marker_2 index =
     (let marker_1_sym = (\<lambda>q. marker biorbd_model q (marker_index biorbd_model marker_1));
          constraint =
            (case marker_2 of
               Some m2 \<Rightarrow>
                 (\<lambda>q. py_slice index
                        (vec_sub (marker_1_sym q)
                           (marker biorbd_model q (marker_index biorbd_model m2))))
             | None \<Rightarrow> (\<lambda>q. py_slice index (marker_1_sym q)));
          constraint_jacobian_func = jacobian constraint;
          constraint_double_derivative_func =
            (\<lambda>q q_dot q_ddot.
               vec_add (mat_vec (constraint_jacobian_func q) q_ddot)
                       (mat_vec (constraint_jacobian_func q_dot) q_dot))
      in (constraint, constraint_jacobian_func, constraint_double_derivative_func))"

text \<open>
  A planar two-link model for examples: marker \<open>i\<close> sits at \<open>(q\<^sub>0 + i, q\<^sub>1, 0)\<close>; and the
  jacobian of its marker distances, a constant function of the right shape.
\<close>

definition example_model :: biorbd_model where
  "example_model =
     \<lparr> marker = (\<lambda>q i. [q ! 0 + real i, q ! 1, 0]),
       marker_index = (\<lambda>name. if name = ''m0'' then 0 else 1),
       nb_q = 2, nb_qdot = 2 \<rparr>"

definition example_jacobian :: "(real list \<Rightarrow> real list) \<Rightarrow> real list \<Rightarrow> real list list" where
  "example_jacobian f q = map (\<lambda>y. [1, 0]) (f q)"

section \<open>Properties of the penalty helpers\<close>

lemma zip_replicate_right:
  "zip xs (zip ys (replicate (length ys) c)) = map (\<lambda>(a, b). (a, b, c)) (zip xs ys)"
proof (induction xs arbitrary: ys)
  case Nil
  show ?case by simp
next
  case (Cons x xs)
  show ?case by (cases ys) (simp_all add: Cons.IH)
qed

text \<open>
  C1. For a penalty flagged \<open>transition\<close> whose \<open>nodes_phase\<close> and \<open>multinode_idx\<close> both have
  length 2, the multi-node index resolver returns the two couplings
  (\<open>nodes_phase[1]\<close>, \<open>multinode_idx[1]\<close>, last sub-step) and
  (\<open>nodes_phase[0]\<close>, \<open>multinode_idx[0]\<close>, first sub-step): the declaration order reversed,
  with the sub-selectors (last, first). For a penalty flagged \<open>multinode_penalty\<close> and not
  \<open>transition\<close> it returns the declared (phase, node) pairs in declaration order, each with
  the sub-selector first sub-step. The couplings are the zip of the three returned lists.
\<close>

theorem get_multinode_indices_couplings:
  "(transition p \<and> length (nodes_phase p) = 2 \<and> length (multinode_idx p) = 2 \<longrightarrow>
      get_multinode_indices p =
        Inr ([nodes_phase p ! 1, nodes_phase p ! 0],
             [multinode_idx p ! 1, multinode_idx p ! 0],
             [Slice (Some (- 1)) None, Slice (Some 0) (Some 1)])
      \<and> map_sum id zip3 (get_multinode_indices p) =
        Inr [(nodes_phase p ! 1, multinode_idx p ! 1, Slice (Some (- 1)) None),
             (nodes_phase p ! 0, multinode_idx p ! 0, Slice (Some 0) (Some 1))])
   \<and> (multinode_penalty p \<and> \<not> transition p \<longrightarrow>
      get_multinode_indices p =
        Inr (nodes_phase p, multinode_idx p,
             replicate (length (multinode_idx p)) (Slice (Some 0) (Some 1)))
      \<and> map_sum id zip3 (get_multinode_indices p) =
        Inr (map (\<lambda>(ph, n). (ph, n, Slice (Some 0) (Some 1)))
               (zip (nodes_phase p) (multinode_idx p))))"
  by (simp add: get_multinode_indices_def zip3_def zip_replicate_right)

theorem get_multinode_indices_couplings_witness:
  "get_multinode_indices (example_penalty\<lparr>transition := True\<rparr>) =
     Inr ([1, 0], [0, 3], [Slice (Some (- 1)) None, Slice (Some 0) (Some 1)])
   \<and> map_sum id zip3 (get_multinode_indices (example_penalty\<lparr>multinode_penalty := True\<rparr>)) =
     Inr [(0, 3, Slice (Some 0) (Some 1)), (1, 0, Slice (Some 0) (Some 1))]"
  using get_multinode_indices_couplings [of "example_penalty\<lparr>transition := True\<rparr>"]
    get_multinode_indices_couplings [of "example_penalty\<lparr>multinode_penalty := True\<rparr>"]
  by (simp add: example_penalty_def zip3_def)

text \<open>
  C2, as the code has it. For a penalty whose integration rule is approximate-trapezoidal or
  whose \<open>integrate\<close> flag is set, and whose phase is not a list of several phases, \<open>states\<close>
  returns the whole current node (all sub-steps) vertically concatenated with the first
  sub-step of the next node when the penalty is not being constructed, and with the last
  sub-step of the current node when it is. The current node is \<open>node_idx[index]\<close>, or 0 when
  the index is \<open>None\<close>; the callback returns matrices the reshaping supports.
\<close>

theorem states_integrated:
  assumes "integration_rule p = APPROXIMATE_TRAPEZOIDAL \<or> integrate p"
    and "\<not> multiple_phases (phase p)"
    and "resolve_index p index = Inr n"
    and "reshape_to_vector (get_state_decision (phase p) n (Slice (Some 0) None)) = Inr x"
    and "reshape_to_vector
           (if constructing then get_state_decision (phase p) n (Slice (Some (- 1)) None)
            else get_state_decision (phase p) (n + 1) (Slice (Some 0) (Some 1))) = Inr y"
  shows "states casadi_vertcat np_vstack p index get_state_decision constructing
           = Inr (casadi_vertcat [x, y])"
  using assms by (auto simp: states_def bind_err_def)

theorem states_integrated_witness:
  "states stack_columns stack_columns
     (example_penalty\<lparr>integration_rule := APPROXIMATE_TRAPEZOIDAL\<rparr>) (Some 1) example_grid False
     = Inr (CX DM 4 1 [10, 11, 12, 20])
   \<and> states stack_columns stack_columns
     (example_penalty\<lparr>integrate := True\<rparr>) (Some 1) example_grid True
     = Inr (CX DM 4 1 [10, 11, 12, 12])"
proof -
  let ?P = "example_penalty\<lparr>integration_rule := APPROXIMATE_TRAPEZOIDAL\<rparr>"
  let ?Q = "example_penalty\<lparr>integrate := True\<rparr>"
  have kind: "integration_rule ?P = APPROXIMATE_TRAPEZOIDAL \<or> integrate ?P"
      "integration_rule ?Q = APPROXIMATE_TRAPEZOIDAL \<or> integrate ?Q"
    and single: "\<not> multiple_phases (phase ?P)" "\<not> multiple_phases (phase ?Q)"
    and node: "resolve_index ?P (Some 1) = Inr 1" "resolve_index ?Q (Some 1) = Inr 1"
    by (simp_all add: resolve_index_def py_index_def example_penalty_def)
  have full: "reshape_to_vector (example_grid (phase ?P) 1 (Slice (Some 0) None))
                = Inr (CX DM 3 1 [10, 11, 12])"
      "reshape_to_vector (example_grid (phase ?Q) 1 (Slice (Some 0) None))
                = Inr (CX DM 3 1 [10, 11, 12])"
    and nxt: "reshape_to_vector
                (if False then example_grid (phase ?P) 1 (Slice (Some (- 1)) None)
                 else example_grid (phase ?P) (1 + 1) (Slice (Some 0) (Some 1)))
                = Inr (CX DM 1 1 [20])"
    and lst: "reshape_to_vector
                (if True then example_grid (phase ?Q) 1 (Slice (Some (- 1)) None)
                 else example_grid (phase ?Q) (1 + 1) (Slice (Some 0) (Some 1)))
                = Inr (CX DM 1 1 [12])"
    by (simp_all add: reshape_to_vector_def example_grid_def slice_bound_def)
  have cat: "stack_columns [CX DM 3 1 [10, 11, 12], CX DM 1 1 [20 :: int]]
               = CX DM 4 1 [10, 11, 12, 20]"
      "stack_columns [CX DM 3 1 [10, 11, 12], CX DM 1 1 [12 :: int]]
               = CX DM 4 1 [10, 11, 12, 12]"
    by (simp_all add: stack_columns_def)
  show ?thesis
    using states_integrated [where get_state_decision = example_grid and constructing = False
          and casadi_vertcat = stack_columns and np_vstack = stack_columns,
          OF kind(1) single(1) node(1) full(1) nxt]
      states_integrated [where get_state_decision = example_grid and constructing = True
          and casadi_vertcat = stack_columns and np_vstack = stack_columns,
          OF kind(2) single(2) node(2) full(2) lst]
    by (simp only: cat simp_thms)
qed

text \<open>
  C2, as stated, also covers the plain trapezoidal rule. A penalty whose rule is
  \<open>TRAPEZOIDAL\<close> with no flag set is outside the test of \<open>states\<close>, which names the
  approximate rule only: on the example grid, at node 1, \<open>states\<close> returns the first sub-step
  of node 1 alone, not the node followed by the first sub-step of node 2.
\<close>

theorem states_trapezoidal_counterexample:
  "integration_rule (example_penalty\<lparr>integration_rule := TRAPEZOIDAL\<rparr>) = TRAPEZOIDAL
   \<and> \<not> multiple_phases (phase (example_penalty\<lparr>integration_rule := TRAPEZOIDAL\<rparr>))
   \<and> reshape_to_vector (example_grid (PhaseInt 0) 1 (Slice (Some 0) None))
       = Inr (CX DM 3 1 [10, 11, 12])
   \<and> reshape_to_vector (example_grid (PhaseInt 0) 2 (Slice (Some 0) (Some 1)))
       = Inr (CX DM 1 1 [20])
   \<and> states stack_columns stack_columns
       (example_penalty\<lparr>integration_rule := TRAPEZOIDAL\<rparr>) (Some 1) example_grid False
       = Inr (CX DM 1 1 [10])
   \<and> states stack_columns stack_columns
       (example_penalty\<lparr>integration_rule := TRAPEZOIDAL\<rparr>) (Some 1) example_grid False
       \<noteq> Inr (stack_columns [CX DM 3 1 [10, 11, 12], CX DM 1 1 [20]])"
  by (simp add: states_def bind_err_def resolve_index_def py_index_def example_penalty_def
      reshape_to_vector_def example_grid_def slice_bound_def stack_columns_def)

text \<open>
  C7. For a single-phase penalty flagged \<open>derivative\<close>, \<open>states\<close> returns the vertical
  concatenation (later, earlier) of the second slice and the first sub-step of the current
  node, the second slice being the first sub-step of the next node when the penalty is not
  being constructed and the last sub-step of the current node when it is. For a penalty
  flagged \<open>explicit_derivative\<close> it returns the same two slices in the order
  (earlier, later). The kinds of a penalty exclude one another: the penalty is not of the
  integrated kind, and an \<open>explicit_derivative\<close> penalty is not flagged \<open>derivative\<close>.
\<close>

theorem states_derivative:
  assumes "\<not> (integration_rule p = APPROXIMATE_TRAPEZOIDAL \<or> integrate p)"
    and "\<not> multiple_phases (phase p)"
    and "resolve_index p index = Inr n"
    and "reshape_to_vector (get_state_decision (phase p) n (Slice (Some 0) (Some 1))) = Inr x0"
    and "reshape_to_vector
           (if constructing then get_state_decision (phase p) n (Slice (Some (- 1)) None)
            else get_state_decision (phase p) (n + 1) (Slice (Some 0) (Some 1))) = Inr x1"
  shows "(derivative p \<longrightarrow>
            states casadi_vertcat np_vstack p index get_state_decision constructing
              = Inr (casadi_vertcat [x1, x0]))
       \<and> (explicit_derivative p \<and> \<not> derivative p \<longrightarrow>
            states casadi_vertcat np_vstack p index get_state_decision constructing
              = Inr (casadi_vertcat [x0, x1]))"
  using assms by (auto simp: states_def bind_err_def)

theorem states_derivative_witness:
  "states stack_columns stack_columns
     (example_penalty\<lparr>derivative := True\<rparr>) (Some 1) example_grid False
     = Inr (CX DM 2 1 [20, 10])
   \<and> states stack_columns stack_columns
     (example_penalty\<lparr>explicit_derivative := True\<rparr>) (Some 1) example_grid True
     = Inr (CX DM 2 1 [10, 12])"
proof -
  let ?P = "example_penalty\<lparr>derivative := True\<rparr>"
  let ?Q = "example_penalty\<lparr>explicit_derivative := True\<rparr>"
  have kind: "\<not> (integration_rule ?P = APPROXIMATE_TRAPEZOIDAL \<or> integrate ?P)"
      "\<not> (integration_rule ?Q = APPROXIMATE_TRAPEZOIDAL \<or> integrate ?Q)"
    and single: "\<not> multiple_phases (phase ?P)" "\<not> multiple_phases (phase ?Q)"
    and node: "resolve_index ?P (Some 1) = Inr 1" "resolve_index ?Q (Some 1) = Inr 1"
    and flags: "derivative ?P" "explicit_derivative ?Q \<and> \<not> derivative ?Q"
    by (simp_all add: resolve_index_def py_index_def example_penalty_def)
  have first: "reshape_to_vector (example_grid (phase ?P) 1 (Slice (Some 0) (Some 1)))
                = Inr (CX DM 1 1 [10])"
      "reshape_to_vector (example_grid (phase ?Q) 1 (Slice (Some 0) (Some 1)))
                = Inr (CX DM 1 1 [10])"
    and nxt: "reshape_to_vector
                (if False then example_grid (phase ?P) 1 (Slice (Some (- 1)) None)
                 else example_grid (phase ?P) (1 + 1) (Slice (Some 0) (Some 1)))
                = Inr (CX DM 1 1 [20])"
    and lst: "reshape_to_vector
                (if True then example_grid (phase ?Q) 1 (Slice (Some (- 1)) None)
                 else example_grid (phase ?Q) (1 + 1) (Slice (Some 0) (Some 1)))
                = Inr (CX DM 1 1 [12])"
    by (simp_all add: reshape_to_vector_def example_grid_def slice_bound_def)
  have cat: "stack_columns [CX DM 1 1 [20], CX DM 1 1 [10 :: int]] = CX DM 2 1 [20, 10]"
      "stack_columns [CX DM 1 1 [10], CX DM 1 1 [12 :: int]] = CX DM 2 1 [10, 12]"
    by (simp_all add: stack_columns_def)
  show ?thesis
    using states_derivative [where get_state_decision = example_grid and constructing = False
          and casadi_vertcat = stack_columns and np_vstack = stack_columns,
          OF kind(1) single(1) node(1) first(1) nxt] flags(1)
      states_derivative [where get_state_decision = example_grid and constructing = True
          and casadi_vertcat = stack_columns and np_vstack = stack_columns,
          OF kind(2) single(2) node(2) first(2) lst] flags(2)
    by (simp only: cat simp_thms)
qed

text \<open>
  C8. For a penalty with no configured target, \<open>target\<close> returns a vector of length zero,
  whatever the node index.
\<close>

theorem target_without_target:
  "target np_vstack np_T (penalty\<lparr>target := None\<rparr>) penalty_node_idx = Inr (NDArray [0] [])
   \<and> numel (NDArray [0] [] :: 'a matrix) = 0"
  by (simp add: target_def)

text \<open>
  C9. The reshaping is idempotent: a supported input (numeric array or symbolic matrix) that
  is already a column vector is returned as it is; the result of a reshaping is a column
  vector that a second reshaping returns unchanged, so reshaping twice is reshaping once.
\<close>

theorem reshape_to_vector_idempotent:
  "(is_column m \<longrightarrow> reshape_to_vector m = Inr m)
   \<and> (reshape_to_vector m = Inr v \<longrightarrow> is_column v \<and> reshape_to_vector v = Inr v)
   \<and> bind_err (reshape_to_vector m) reshape_to_vector = reshape_to_vector m"
  by (cases m) (auto simp: reshape_to_vector_def bind_err_def split: list.splits)

theorem reshape_to_vector_idempotent_witness:
  "is_column (CX MX 3 1 [1, 2, 3 :: int])
   \<and> reshape_to_vector (CX MX 3 1 [1, 2, 3 :: int]) = Inr (CX MX 3 1 [1, 2, 3])
   \<and> reshape_to_vector (NDArray [2, 2] [1, 2, 3, 4 :: int]) = Inr (NDArray [4, 1] [1, 2, 3, 4])
   \<and> reshape_to_vector (NDArray [4, 1] [1, 2, 3, 4 :: int]) = Inr (NDArray [4, 1] [1, 2, 3, 4])"
  using reshape_to_vector_idempotent [of "CX MX 3 1 [1, 2, 3 :: int]"]
    reshape_to_vector_idempotent [of "NDArray [2, 2] [1, 2, 3, 4 :: int]" "NDArray [4, 1] [1, 2, 3, 4]"]
  by (simp add: reshape_to_vector_def)

section \<open>Properties of the stochastic program\<close>

lemma py_range_numerals:
  "py_range 4 = [0, 1, 2, 3]" "py_range 3 = [0, 1, 2]" "py_range 2 = [0, 1]"
  by (simp_all add: py_range_def upt_rec)

lemma py_enumerate_short:
  "py_enumerate [a] = [(0, a)]" "py_enumerate [a, b] = [(0, a), (1, b)]"
  by (simp_all add: py_enumerate_def upt_rec)

text \<open>
  C3. For an implicit-variant problem with two phases, the first with 4 nodes and the second
  with 3 (the count \<open>ns\<close> the assembler reads from each phase), the implicit assembler emits
  exactly 5 M-consistency multi-node constraints inside the phases (3 and 2), exactly 1
  M-consistency constraint on the phase boundary, the single-node constraints of covariance
  continuity, of A = df/dx and of C = df/dw at every node of each phase (\<open>Node.ALL\<close>: 4 nodes
  for phase 0 and 3 for phase 1, of each kind), and exactly 1 covariance-continuity
  multi-node constraint on the boundary.
\<close>

theorem implicit_two_phases:
  assumes "nlp self = [p0, p1]" and "ns p0 = 4" and "ns p1 = 3"
  shows "multi_node_penalties (nlp self) wM wS =
           [MultinodeConstraint M_EQUALS_INVERSE_OF_DG_DZ (0, 0) (0, 1)
              (Some (dynamic_function p0)) wM wS,
            MultinodeConstraint M_EQUALS_INVERSE_OF_DG_DZ (0, 0) (1, 2)
              (Some (dynamic_function p0)) wM wS,
            MultinodeConstraint M_EQUALS_INVERSE_OF_DG_DZ (0, 0) (2, 3)
              (Some (dynamic_function p0)) wM wS,
            MultinodeConstraint M_EQUALS_INVERSE_OF_DG_DZ (1, 1) (0, 1)
              (Some (dynamic_function p1)) wM wS,
            MultinodeConstraint M_EQUALS_INVERSE_OF_DG_DZ (1, 1) (1, 2)
              (Some (dynamic_function p1)) wM wS,
            MultinodeConstraint M_EQUALS_INVERSE_OF_DG_DZ (0, 1) (- 1, 0)
              (Some (dynamic_function p1)) wM wS,
            MultinodeConstraint MULTINODE_COVARIANCE_MATRIX_CONINUITY_IMPLICIT (0, 1) (- 1, 0)
              None wM wS]
       \<and> single_node_penalties (nlp self) wM wS =
           [Constraint COVARIANCE_MATRIX_CONINUITY_IMPLICIT Node_ALL 0 wM wS,
            Constraint COVARIANCE_MATRIX_CONINUITY_IMPLICIT Node_ALL 1 wM wS,
            Constraint A_EQUALS_DF_DX Node_ALL 0 wM wS,
            Constraint A_EQUALS_DF_DX Node_ALL 1 wM wS,
            Constraint C_EQUALS_DF_DW Node_ALL 0 wM wS,
            Constraint C_EQUALS_DF_DW Node_ALL 1 wM wS]
       \<and> applied_constraints (nlp self) (single_node_penalties (nlp self) wM wS) =
           Inr [(COVARIANCE_MATRIX_CONINUITY_IMPLICIT, 0, 0),
                (COVARIANCE_MATRIX_CONINUITY_IMPLICIT, 0, 1),
                (COVARIANCE_MATRIX_CONINUITY_IMPLICIT, 0, 2),
                (COVARIANCE_MATRIX_CONINUITY_IMPLICIT, 0, 3),
                (COVARIANCE_MATRIX_CONINUITY_IMPLICIT, 1, 0),
                (COVARIANCE_MATRIX_CONINUITY_IMPLICIT, 1, 1),
                (COVARIANCE_MATRIX_CONINUITY_IMPLICIT, 1, 2),
                (A_EQUALS_DF_DX, 0, 0), (A_EQUALS_DF_DX, 0, 1),
                (A_EQUALS_DF_DX, 0, 2), (A_EQUALS_DF_DX, 0, 3),
                (A_EQUALS_DF_DX, 1, 0), (A_EQUALS_DF_DX, 1, 1), (A_EQUALS_DF_DX, 1, 2),
                (C_EQUALS_DF_DW, 0, 0), (C_EQUALS_DF_DW, 0, 1),
                (C_EQUALS_DF_DW, 0, 2), (C_EQUALS_DF_DW, 0, 3),
                (C_EQUALS_DF_DW, 1, 0), (C_EQUALS_DF_DW, 1, 1), (C_EQUALS_DF_DW, 1, 2)]
       \<and> length (filter is_intra_phase_M (multi_node_penalties (nlp self) wM wS)) = 5
       \<and> length (filter (is_boundary M_EQUALS_INVERSE_OF_DG_DZ)
                   (multi_node_penalties (nlp self) wM wS)) = 1
       \<and> length (filter (is_boundary MULTINODE_COVARIANCE_MATRIX_CONINUITY_IMPLICIT)
                   (multi_node_penalties (nlp self) wM wS)) = 1
       \<and> prepare_stochastic_dynamics_implicit add self wM wS =
           bind_err (add (MultinodeConstraintList (multi_node_penalties (nlp self) wM wS)) self)
             (add (ConstraintList (single_node_penalties (nlp self) wM wS)))"
proof -
  have multi: "multi_node_penalties [p0, p1] wM wS =
           [MultinodeConstraint M_EQUALS_INVERSE_OF_DG_DZ (0, 0) (0, 1)
              (Some (dynamic_function p0)) wM wS,
            MultinodeConstraint M_EQUALS_INVERSE_OF_DG_DZ (0, 0) (1, 2)
              (Some (dynamic_function p0)) wM wS,
            MultinodeConstraint M_EQUALS_INVERSE_OF_DG_DZ (0, 0) (2, 3)
              (Some (dynamic_function p0)) wM wS,
            MultinodeConstraint M_EQUALS_INVERSE_OF_DG_DZ (1, 1) (0, 1)
              (Some (dynamic_function p1)) wM wS,
            MultinodeConstraint M_EQUALS_INVERSE_OF_DG_DZ (1, 1) (1, 2)
              (Some (dynamic_function p1)) wM wS,
            MultinodeConstraint M_EQUALS_INVERSE_OF_DG_DZ (0, 1) (- 1, 0)
              (Some (dynamic_function p1)) wM wS,
            MultinodeConstraint MULTINODE_COVARIANCE_MATRIX_CONINUITY_IMPLICIT (0, 1) (- 1, 0)
              None wM wS]"
    using assms(2,3)
    by (simp add: multi_node_penalties_def py_range_numerals py_enumerate_short)
  have single: "single_node_penalties [p0, p1] wM wS =
           [Constraint COVARIANCE_MATRIX_CONINUITY_IMPLICIT Node_ALL 0 wM wS,
            Constraint COVARIANCE_MATRIX_CONINUITY_IMPLICIT Node_ALL 1 wM wS,
            Constraint A_EQUALS_DF_DX Node_ALL 0 wM wS,
            Constraint A_EQUALS_DF_DX Node_ALL 1 wM wS,
            Constraint C_EQUALS_DF_DW Node_ALL 0 wM wS,
            Constraint C_EQUALS_DF_DW Node_ALL 1 wM wS]"
    by (simp add: single_node_penalties_def py_enumerate_short)
  have nodes: "applied_nodes [p0, p1] (Constraint f Node_ALL 0 wM wS)
                 = Inr [(f, 0, 0), (f, 0, 1), (f, 0, 2), (f, 0, 3)]"
      "applied_nodes [p0, p1] (Constraint f Node_ALL 1 wM wS)
                 = Inr [(f, 1, 0), (f, 1, 1), (f, 1, 2)]" for f
    using assms(2,3)
    by (simp_all add: py_index_def bind_err_def py_range_numerals)
  have applied: "applied_constraints [p0, p1] (single_node_penalties [p0, p1] wM wS) =
           Inr [(COVARIANCE_MATRIX_CONINUITY_IMPLICIT, 0, 0),
                (COVARIANCE_MATRIX_CONINUITY_IMPLICIT, 0, 1),
                (COVARIANCE_MATRIX_CONINUITY_IMPLICIT, 0, 2),
                (COVARIANCE_MATRIX_CONINUITY_IMPLICIT, 0, 3),
                (COVARIANCE_MATRIX_CONINUITY_IMPLICIT, 1, 0),
                (COVARIANCE_MATRIX_CONINUITY_IMPLICIT, 1, 1),
                (COVARIANCE_MATRIX_CONINUITY_IMPLICIT, 1, 2),
                (A_EQUALS_DF_DX, 0, 0), (A_EQUALS_DF_DX, 0, 1),
                (A_EQUALS_DF_DX, 0, 2), (A_EQUALS_DF_DX, 0, 3),
                (A_EQUALS_DF_DX, 1, 0), (A_EQUALS_DF_DX, 1, 1), (A_EQUALS_DF_DX, 1, 2),
                (C_EQUALS_DF_DW, 0, 0), (C_EQUALS_DF_DW, 0, 1),
                (C_EQUALS_DF_DW, 0, 2), (C_EQUALS_DF_DW, 0, 3),
                (C_EQUALS_DF_DW, 1, 0), (C_EQUALS_DF_DW, 1, 1), (C_EQUALS_DF_DW, 1, 2)]"
    by (simp add: single applied_constraints_def nodes bind_err_def del: applied_nodes.simps)
  show ?thesis
    by (simp add: assms(1) multi single applied [unfolded single]
        prepare_stochastic_dynamics_implicit_def)
qed

theorem implicit_two_phases_witness:
  "length (multi_node_penalties
             [\<lparr>ns = 4, dynamic_function = ()\<rparr>, \<lparr>ns = 3, dynamic_function = ()\<rparr>] () ()) = 7
   \<and> length (filter is_intra_phase_M
       (multi_node_penalties
             [\<lparr>ns = 4, dynamic_function = ()\<rparr>, \<lparr>ns = 3, dynamic_function = ()\<rparr>] () ())) = 5
   \<and> map constraint_fcn (single_node_penalties
             [\<lparr>ns = 4, dynamic_function = ()\<rparr>, \<lparr>ns = 3, dynamic_function = ()\<rparr>] () ())
       = [COVARIANCE_MATRIX_CONINUITY_IMPLICIT, COVARIANCE_MATRIX_CONINUITY_IMPLICIT,
          A_EQUALS_DF_DX, A_EQUALS_DF_DX, C_EQUALS_DF_DW, C_EQUALS_DF_DW]
   \<and> map_sum id length
       (applied_constraints
          [\<lparr>ns = 4, dynamic_function = ()\<rparr>, \<lparr>ns = 3, dynamic_function = ()\<rparr>]
          (single_node_penalties
             [\<lparr>ns = 4, dynamic_function = ()\<rparr>, \<lparr>ns = 3, dynamic_function = ()\<rparr>] () ()))
       = Inr 21
   \<and> map_sum id (\<lambda>xs. length (filter (\<lambda>t. fst t = A_EQUALS_DF_DX \<and> fst (snd t) = 0) xs))
       (applied_constraints
          [\<lparr>ns = 4, dynamic_function = ()\<rparr>, \<lparr>ns = 3, dynamic_function = ()\<rparr>]
          (single_node_penalties
             [\<lparr>ns = 4, dynamic_function = ()\<rparr>, \<lparr>ns = 3, dynamic_function = ()\<rparr>] () ()))
       = Inr 4
   \<and> map_sum id (\<lambda>xs. length (filter (\<lambda>t. fst t = C_EQUALS_DF_DW \<and> fst (snd t) = 1) xs))
       (applied_constraints
          [\<lparr>ns = 4, dynamic_function = ()\<rparr>, \<lparr>ns = 3, dynamic_function = ()\<rparr>]
          (single_node_penalties
             [\<lparr>ns = 4, dynamic_function = ()\<rparr>, \<lparr>ns = 3, dynamic_function = ()\<rparr>] () ()))
       = Inr 3"
proof -
  let ?s = "example_self\<lparr>nlp := [\<lparr>ns = 4, dynamic_function = ()\<rparr>,
                                 \<lparr>ns = 3, dynamic_function = ()\<rparr>]\<rparr>"
  have h: "nlp ?s = [\<lparr>ns = 4, dynamic_function = ()\<rparr>, \<lparr>ns = 3, dynamic_function = ()\<rparr>]"
      "ns \<lparr>ns = 4, dynamic_function = ()\<rparr> = 4" "ns \<lparr>ns = 3, dynamic_function = ()\<rparr> = 3"
    by simp_all
  show ?thesis
    using implicit_two_phases [OF h, where add = example_add and wM = "()" and wS = "()"]
    by (elim conjE) simp
qed

text \<open>
  C4. For an explicit-variant problem with exactly one phase of 5 nodes (the count \<open>ns\<close> the
  assembler reads from the phase), the explicit assembler emits exactly 4 multi-node
  M-consistency constraints, one for each pair of consecutive nodes \<open>(i, i + 1)\<close>, and no
  constraint on a phase boundary.
\<close>

theorem explicit_single_phase:
  assumes "nlp self = [p]" and "ns p = 5"
  shows "penalty_m_dg_dz_list (nlp self) wM wS =
           [MultinodeConstraint M_EQUALS_INVERSE_OF_DG_DZ (0, 0) (0, 1)
              (Some (dynamic_function p)) wM wS,
            MultinodeConstraint M_EQUALS_INVERSE_OF_DG_DZ (0, 0) (1, 2)
              (Some (dynamic_function p)) wM wS,
            MultinodeConstraint M_EQUALS_INVERSE_OF_DG_DZ (0, 0) (2, 3)
              (Some (dynamic_function p)) wM wS,
            MultinodeConstraint M_EQUALS_INVERSE_OF_DG_DZ (0, 0) (3, 4)
              (Some (dynamic_function p)) wM wS]
       \<and> length (filter is_intra_phase_M (penalty_m_dg_dz_list (nlp self) wM wS)) = 4
       \<and> filter (is_boundary M_EQUALS_INVERSE_OF_DG_DZ)
           (penalty_m_dg_dz_list (nlp self) wM wS) = []
       \<and> prepare_stochastic_dynamics_explicit add self wM wS =
           add (MultinodeConstraintList (penalty_m_dg_dz_list (nlp self) wM wS)) self"
  using assms
  by (simp add: penalty_m_dg_dz_list_def py_range_numerals py_enumerate_short
      prepare_stochastic_dynamics_explicit_def)

theorem explicit_single_phase_witness:
  "length (penalty_m_dg_dz_list [\<lparr>ns = 5, dynamic_function = ()\<rparr>] () ()) = 4
   \<and> filter (is_boundary M_EQUALS_INVERSE_OF_DG_DZ)
       (penalty_m_dg_dz_list [\<lparr>ns = 5, dynamic_function = ()\<rparr>] () ()) = []"
proof -
  let ?s = "example_self\<lparr>nlp := [\<lparr>ns = 5, dynamic_function = ()\<rparr>]\<rparr>"
  have h: "nlp ?s = [\<lparr>ns = 5, dynamic_function = ()\<rparr>]"
      "ns \<lparr>ns = 5, dynamic_function = ()\<rparr> = 5"
    by simp_all
  show ?thesis
    using explicit_single_phase [OF h, where add = example_add and wM = "()" and wS = "()"]
    by simp
qed

text \<open>
  C5, evaluated on the code. The constructor looks for the keys \<^verbatim>\<open>n_thread\<close> and
  \<^verbatim>\<open>assume_phase_dynamics\<close> in \<^verbatim>\<open>kwargs\<close>. A call with \<^verbatim>\<open>n_threads=4\<close> or with
  \<^verbatim>\<open>assume_phase_dynamics=True\<close> binds the declared parameter of that name, so neither key
  reaches \<^verbatim>\<open>kwargs\<close>: both checks pass, the arguments still hold 4 and \<open>True\<close>, and with
  inherited steps that succeed the construction completes. Only the undeclared keyword
  \<^verbatim>\<open>n_thread=4\<close> raises.
\<close>

theorem init_checks_miss_declared_parameters:
  "init_attributes self (kwargs_of (c\<lparr>keyword_args := [''n_threads'' \<mapsto> PyInt 4]\<rparr>))
     = Inr (self\<lparr>n_threads := 1, assume_phase_dynamics := False\<rparr>)
   \<and> init_attributes self
       (kwargs_of (c\<lparr>keyword_args := [''assume_phase_dynamics'' \<mapsto> PyBool True]\<rparr>))
     = Inr (self\<lparr>n_threads := 1, assume_phase_dynamics := False\<rparr>)
   \<and> n_threads_arg (c\<lparr>keyword_args := [''n_threads'' \<mapsto> PyInt 4]\<rparr>) = PyInt 4
   \<and> assume_phase_dynamics_arg
       (c\<lparr>keyword_args := [''assume_phase_dynamics'' \<mapsto> PyBool True]\<rparr>) = PyBool True
   \<and> init example_build example_add example_finalize example_self
       (example_call [''n_threads'' \<mapsto> PyInt 4])
     = Inr (example_self\<lparr>n_threads := 1, assume_phase_dynamics := False,
                         problem_type := SOCP_EXPLICIT () ()\<rparr>)
   \<and> init example_build example_add example_finalize example_self
       (example_call [''assume_phase_dynamics'' \<mapsto> PyBool True])
     = Inr (example_self\<lparr>n_threads := 1, assume_phase_dynamics := False,
                         problem_type := SOCP_EXPLICIT () ()\<rparr>)
   \<and> (\<exists>e. init_attributes self (kwargs_of (c\<lparr>keyword_args := [''n_thread'' \<mapsto> PyInt 4]\<rparr>))
          = Inl e)"
  by (simp add: init_def init_attributes_def kwargs_of_def declared_parameters_def
        n_threads_arg_def assume_phase_dynamics_arg_def
        example_call_def example_build_def example_add_def example_finalize_def bind_err_def
        declare_multi_node_penalties_def prepare_stochastic_dynamics_explicit_def)

section \<open>Properties of the holonomic constraint builder\<close>

lemma dot_zero: "sum_list (map2 (*) row (replicate n (0::real))) = 0"
proof (induction row arbitrary: n)
  case Nil
  show ?case by simp
next
  case (Cons a row)
  show ?case by (cases n) (simp_all add: Cons.IH)
qed

lemma mat_vec_zero: "mat_vec A (replicate n 0) = replicate (length A) 0"
  by (induction A) (simp_all add: mat_vec_def dot_zero)

text \<open>
  C6. The third function returned by the builder computes
  \<open>constraint_double_derivative(q, q_dot, q_ddot) = J(q) q_ddot + J(q_dot) q_dot\<close>, where \<open>J\<close>
  is the compiled jacobian of the constraint, evaluated at the velocity in the second term.
  Hence, for a constraint on two markers with \<open>index = slice(0, 3)\<close>, its value at
  \<open>q_dot = 0\<close> and \<open>q_ddot = 0\<close> is the zero vector of length 3 for every \<open>q\<close>. Markers are
  points of space (three coordinates) and the jacobian has one row for each component of the
  constraint; the arithmetic is that of the reals.
\<close>

theorem constraint_double_derivative_at_rest:
  assumes rows: "\<And>f x. length (jacobian f x) = length (f x)"
    and markers: "\<And>x i. length (marker model x i) = 3"
  shows "(case superimpose_markers jacobian model marker_1 marker_2 index of
            (constraint, J, dd) \<Rightarrow>
              J = jacobian constraint
              \<and> (\<forall>q q_dot q_ddot.
                    dd q q_dot q_ddot = vec_add (mat_vec (J q) q_ddot) (mat_vec (J q_dot) q_dot)))
       \<and> (case superimpose_markers jacobian model marker_1 (Some m2) (Slice (Some 0) (Some 3)) of
            (constraint, J, dd) \<Rightarrow> \<forall>q. dd q (replicate n 0) (replicate n 0) = [0, 0, 0])"
proof -
  let ?c = "\<lambda>q. py_slice (Slice (Some 0) (Some 3))
                   (vec_sub (marker model q (marker_index model marker_1))
                            (marker model q (marker_index model m2)))"
  have len: "length (jacobian ?c x) = 3" for x
    using rows [of ?c x] markers by (simp add: vec_sub_def slice_bound_def)
  have zeros: "mat_vec (jacobian ?c x) (replicate n 0) = [0, 0, 0]" for x
    by (simp only: mat_vec_zero len) (simp add: numeral_3_eq_3)
  have "vec_add (mat_vec (jacobian ?c q) (replicate n 0))
          (mat_vec (jacobian ?c (replicate n 0)) (replicate n 0)) = [0, 0, 0]" for q
    by (simp only: zeros) (simp add: vec_add_def)
  then show ?thesis
    by (simp add: superimpose_markers_def Let_def)
qed

theorem constraint_double_derivative_at_rest_witness:
  "(case superimpose_markers example_jacobian example_model ''m0'' (Some ''m1'')
           (Slice (Some 0) (Some 3)) of
      (constraint, J, dd) \<Rightarrow>
        constraint [1, 2] = [- 1, 0, 0] \<and> dd [1, 2] [3, 4] [5, 6] = [8, 8, 8]
        \<and> dd [1, 2] (replicate 2 0) (replicate 2 0) = [0, 0, 0])"
proof -
  have rows: "length (example_jacobian f x) = length (f x)" for f x
    by (simp add: example_jacobian_def)
  have markers: "length (marker example_model x i) = 3" for x i
    by (simp add: example_model_def)
  have ev: "(case superimpose_markers example_jacobian example_model ''m0'' (Some ''m1'')
           (Slice (Some 0) (Some 3)) of
      (constraint, J, dd) \<Rightarrow>
        constraint [1, 2] = [- 1, 0, 0] \<and> dd [1, 2] [3, 4] [5, 6] = [8, 8, 8])"
    by (simp add: superimpose_markers_def Let_def example_model_def example_jacobian_def
        vec_sub_def vec_add_def mat_vec_def slice_bound_def)
  from constraint_double_derivative_at_rest [where jacobian = example_jacobian
      and model = example_model and ?marker_1.0 = "''m0''" and ?m2.0 = "''m1''" and n = 2,
      OF rows markers] ev
  show ?thesis
    by (auto split: prod.splits)
qed

end
